theory Spec2Isabelle
  imports Main "HOL-Library.Word" "HOL-Library.Sublist"
begin

section \<open>JavaScript values used by app.js\<close>

text \<open>
  A JavaScript string is a sequence of UTF-16 code units. The ASCII literals of the
  source are written through \<open>js\<close>; the Chinese literals are given by their code units.
\<close>

type_synonym js_string = "16 word list"

definition js :: "string \<Rightarrow> js_string" where
  "js s = map of_char s"

text \<open>
  The exceptions that can reach the handlers: a property read or write on \<open>null\<close> and a
  failed string conversion are a \<open>TypeError\<close> (so is a network failure of \<open>fetch\<close>);
  \<open>response.json()\<close> rejects with a \<open>SyntaxError\<close> on a malformed body.
\<close>

datatype js_error = TypeError | SyntaxError | AbortError

text \<open>\<open>String.prototype.indexOf\<close>: the first position of the pattern, or \<open>-1\<close>.\<close>

fun indexOf_from :: "js_string \<Rightarrow> js_string \<Rightarrow> nat \<Rightarrow> int" where
  "indexOf_from [] pat k = (if pat = [] then int k else - 1)"
| "indexOf_from (c # t) pat k =
     (if prefix pat (c # t) then int k else indexOf_from t pat (Suc k))"

definition indexOf :: "js_string \<Rightarrow> js_string \<Rightarrow> int" where
  "indexOf s pat = indexOf_from s pat 0"

text \<open>\<open>Array.prototype.includes\<close> on an array of strings.\<close>

definition array_includes :: "js_string list \<Rightarrow> js_string \<Rightarrow> bool" where
  "array_includes xs x = (x \<in> set xs)"

subsection \<open>Parsed JSON\<close>

text \<open>
  The value \<open>response.json()\<close> resolves to. An object lists its members in the order of
  the JSON text; \<open>JSON.parse\<close> lets the last of several equal keys win. A number is
  carried by its decimal rendering (the result of \<open>Number::toString\<close>), which is all the
  handler observes of it: the rendering of both zeros is \<open>0\<close>.
\<close>

datatype json =
    JNull
  | JBool bool
  | JNumber js_string
  | JString js_string
  | JArray "json list"
  | JObject "(js_string \<times> json) list"

text \<open>
  Reading one of the properties \<open>error\<close>, \<open>success\<close>, \<open>preview_base64\<close>,
  \<open>preview_mime_type\<close> (none of them is defined on a prototype): \<open>null\<close> throws,
  an object gives its member or \<open>undefined\<close> (\<open>None\<close>), every other value gives
  \<open>undefined\<close>.
\<close>

fun get_prop :: "json \<Rightarrow> js_string \<Rightarrow> js_error + json option" where
  "get_prop JNull k = Inl TypeError"
| "get_prop (JObject kvs) k = Inr (map_of (rev kvs) k)"
| "get_prop v k = Inr None"

text \<open>\<open>ToBoolean\<close>.\<close>

fun truthy :: "json option \<Rightarrow> bool" where
  "truthy None = False"
| "truthy (Some JNull) = False"
| "truthy (Some (JBool b)) = b"
| "truthy (Some (JNumber s)) = (s \<noteq> js ''0'' \<and> s \<noteq> js ''NaN'')"
| "truthy (Some (JString s)) = (s \<noteq> [])"
| "truthy (Some (JArray xs)) = True"
| "truthy (Some (JObject kvs)) = True"

text \<open>
  \<open>ToString\<close>, as applied by \<open>alert\<close> and by a template literal. An array is joined
  with commas, a \<open>null\<close> element giving the empty string. A parsed object has no callable
  member, so an own member \<open>toString\<close> makes the conversion throw; without one the
  result is \<open>[object Object]\<close>.
\<close>

fun to_string :: "json \<Rightarrow> js_error + js_string"
  and join :: "json list \<Rightarrow> js_error + js_string" where
  "to_string JNull = Inr (js ''null'')"
| "to_string (JBool b) = Inr (if b then js ''true'' else js ''false'')"
| "to_string (JNumber s) = Inr s"
| "to_string (JString s) = Inr s"
| "to_string (JArray xs) = join xs"
| "to_string (JObject kvs) =
     (if js ''toString'' \<in> fst ` set kvs then Inl TypeError
      else Inr (js ''[object Object]''))"
| "join [] = Inr []"
| "join (x # xs) =
     (case (if x = JNull then Inr [] else to_string x) of
        Inl e \<Rightarrow> Inl e
      | Inr s \<Rightarrow>
          if xs = [] then Inr s
          else (case join xs of Inl e \<Rightarrow> Inl e | Inr r \<Rightarrow> Inr (s @ js '','' @ r)))"

fun to_string_u :: "json option \<Rightarrow> js_error + js_string" where
  "to_string_u None = Inr (js ''undefined'')"
| "to_string_u (Some v) = to_string v"

section \<open>The page\<close>

record js_file =
  file_name :: js_string
  file_type :: js_string
  file_bytes :: "8 word list"

text \<open>
  A clipboard item (\<open>DataTransferItem\<close>): its type string and what \<open>getAsFile()\<close>
  returns, \<open>null\<close> for an item that is not a file.
\<close>

record item =
  item_type :: js_string
  getAsFile :: "js_file option"

record button =
  disabled :: bool
  textContent :: js_string

text \<open>\<open>files\<close> is \<open>None\<close> where the property is absent.\<close>

record file_input =
  files :: "js_file list option"

record image =
  src :: js_string

record area =
  display :: js_string

record banner =
  banner_id :: nat
  className :: js_string
  innerHTML :: js_string

record timer =
  delay :: nat
  target :: nat

record scroll_options =
  behavior :: js_string
  block :: js_string

datatype form_value = FileValue js_file | StringValue js_string

record request =
  url :: js_string
  http_method :: js_string
  body :: "(js_string \<times> form_value) list"

text \<open>
  The part of the document and of the browser the script reads and writes. An element
  is \<open>None\<close> when \<open>getElementById\<close> returns \<open>null\<close>. \<open>bg_color_checked\<close> is the
  value of the element \<open>querySelector('input[name="bg_color"]:checked')\<close> finds.
  \<open>banners\<close> are the elements of class \<open>paste-success-alert\<close> in document order
  (the script appends them to the parent of the file input, which an element found by
  \<open>getElementById\<close> always has). \<open>alerts\<close>, \<open>console_errors\<close>, \<open>requests\<close> and
  \<open>scrolls\<close> log the calls of \<open>alert\<close>, \<open>console.error\<close>, \<open>fetch\<close> and
  \<open>scrollIntoView\<close>; \<open>timers\<close> are the pending \<open>setTimeout\<close> callbacks.
\<close>

record page =
  previewBtn :: "button option"
  photoInput :: "file_input option"
  previewArea :: "area option"
  previewImage :: "image option"
  bg_color_checked :: "js_string option"
  banners :: "banner list"
  next_id :: nat
  timers :: "timer list"
  alerts :: "js_string list"
  console_errors :: "(js_string \<times> js_error) list"
  requests :: "request list"
  scrolls :: "scroll_options list"
  paste_listener :: bool
  click_listener :: bool

section \<open>The paste handler (app.js, lines 2 to 62)\<close>

definition allowedTypes :: "js_string list" where
  "allowedTypes = [js ''image/jpeg'', js ''image/jpg'', js ''image/png'']"

text \<open>The message of line 23.\<close>

definition msg_unsupported :: js_string where
  "msg_unsupported =
     [0x4EC5, 0x652F, 0x6301, 0x0020, 0x004A, 0x0050, 0x0047, 0x0020, 0x002F, 0x0020,
      0x0050, 0x004E, 0x0047, 0x0020, 0x683C, 0x5F0F, 0x7684, 0x56FE, 0x7247]"

text \<open>The banner text of line 54.\<close>

definition banner_html :: js_string where
  "banner_html =
     [0x2705, 0x0020, 0x5DF2, 0x4ECE, 0x526A, 0x8D34, 0x677F, 0x7C98, 0x8D34, 0x56FE,
      0x7247, 0xFF0C, 0x8BF7, 0x9009, 0x62E9, 0x80CC, 0x666F, 0x989C, 0x8272, 0x540E,
      0x70B9, 0x51FB, 0x0022, 0x4E00, 0x952E, 0x751F, 0x6210, 0x8BC1, 0x4EF6, 0x7167,
      0x0022, 0x6309, 0x94AE]"

text \<open>
  \<open>showPasteSuccess\<close>: remove the first element of class \<open>paste-success-alert\<close>,
  create the new banner, append it to the parent of the file input and schedule its
  removal. The result is the completion (\<open>None\<close>: normal, \<open>Some e\<close>: \<open>e\<close> was thrown) and
  the page.
\<close>

definition showPasteSuccess :: "page \<Rightarrow> js_error option \<times> page" where
  "showPasteSuccess p =
     (let p1 = p\<lparr>banners := (case banners p of [] \<Rightarrow> [] | existingAlert # bs \<Rightarrow> bs)\<rparr>;
          alert = \<lparr>banner_id = next_id p1,
                   className = js ''alert alert-info paste-success-alert mt-2'',
                   innerHTML = banner_html\<rparr>;
          p2 = p1\<lparr>next_id := Suc (next_id p1)\<rparr>
      in case photoInput p2 of
           None \<Rightarrow> (Some TypeError, p2)
         | Some inp \<Rightarrow>
             (None, p2\<lparr>banners := banners p2 @ [alert],
                       timers := timers p2 @ [\<lparr>delay = 3000, target = banner_id alert\<rparr>]\<rparr>))"

text \<open>The callback given to \<open>setTimeout\<close>: \<open>alert.remove()\<close>.\<close>

definition timeout_callback :: "nat \<Rightarrow> page \<Rightarrow> page" where
  "timeout_callback b p = p\<lparr>banners := filter (\<lambda>x. banner_id x \<noteq> b) (banners p)\<rparr>"

text \<open>A pending timer fires: it leaves the pending ones and its callback runs.\<close>

definition fire_timer :: "timer \<Rightarrow> page \<Rightarrow> page" where
  "fire_timer t p = timeout_callback (target t) (p\<lparr>timers := remove1 t (timers p)\<rparr>)"

text \<open>
  The listener of line 7, on the items of \<open>e.clipboardData\<close>. The result is the
  completion, whether \<open>e.preventDefault()\<close> was called, and the page.
\<close>

fun paste_handler :: "item list \<Rightarrow> page \<Rightarrow> js_error option \<times> bool \<times> page" where
  "paste_handler [] p = (None, False, p)"
| "paste_handler (item # rest) p =
     (if indexOf (item_type item) (js ''image'') \<noteq> - 1 then
        (case getAsFile item of
           None \<Rightarrow> (Some TypeError, True, p)
         | Some file \<Rightarrow>
             if \<not> array_includes allowedTypes (file_type file) then
               (None, True, p\<lparr>alerts := alerts p @ [msg_unsupported]\<rparr>)
             else
               (case photoInput p of
                  None \<Rightarrow> (Some TypeError, True, p)
                | Some inp \<Rightarrow>
                    (case showPasteSuccess (p\<lparr>photoInput := Some (inp\<lparr>files := Some [file]\<rparr>)\<rparr>) of
                       (c, p') \<Rightarrow> (c, True, p'))))
      else paste_handler rest p)"

text \<open>The first \<open>DOMContentLoaded\<close> listener registers the paste listener.\<close>

definition init_paste :: "page \<Rightarrow> js_error option \<times> page" where
  "init_paste p = (None, p\<lparr>paste_listener := True\<rparr>)"

definition paste_event :: "item list \<Rightarrow> page \<Rightarrow> js_error option \<times> bool \<times> page" where
  "paste_event items p = (if paste_listener p then paste_handler items p else (None, False, p))"

section \<open>The preview handler (app.js, lines 64 to 120)\<close>

text \<open>The message of line 75, the labels of lines 87 and 96 (and 114), the message of line 115.\<close>

definition msg_no_file :: js_string where
  "msg_no_file =
     [0x8BF7, 0x5148, 0x9009, 0x62E9, 0x6216, 0x7C98, 0x8D34, 0x4E00, 0x5F20, 0x56FE, 0x7247]"

definition label_busy :: js_string where
  "label_busy = [0x5904, 0x7406, 0x4E2D, 0x002E, 0x002E, 0x002E]"

definition label_preview :: js_string where
  "label_preview = [0x9884, 0x89C8, 0x8BC1, 0x4EF6, 0x7167]"

definition msg_failed :: js_string where
  "msg_failed =
     [0x9884, 0x89C8, 0x5931, 0x8D25, 0xFF0C, 0x8BF7, 0x7A0D, 0x540E, 0x91CD, 0x8BD5]"

text \<open>
  The click listener of line 72, up to the call of \<open>fetch\<close>. It exists only under
  \<open>if(previewBtn)\<close>, so the button is there whenever it runs (\<open>map_option\<close> leaves an
  absent one absent). The result is the completion and the page.
\<close>

definition previewBtn_click :: "page \<Rightarrow> js_error option \<times> page" where
  "previewBtn_click p =
     (case photoInput p of
        None \<Rightarrow> (Some TypeError, p)
      | Some inp \<Rightarrow>
          (case files inp of
             None \<Rightarrow> (None, p\<lparr>alerts := alerts p @ [msg_no_file]\<rparr>)
           | Some [] \<Rightarrow> (None, p\<lparr>alerts := alerts p @ [msg_no_file]\<rparr>)
           | Some (photo # others) \<Rightarrow>
               (case bg_color_checked p of
                  None \<Rightarrow> (Some TypeError, p)
                | Some bgColor \<Rightarrow>
                    (let formData = [(js ''photo'', FileValue photo),
                                     (js ''bg_color'', StringValue bgColor)];
                         p1 = p\<lparr>previewBtn :=
                                 map_option (\<lambda>b. b\<lparr>disabled := True, textContent := label_busy\<rparr>)
                                   (previewBtn p)\<rparr>
                     in (None, p1\<lparr>requests := requests p1 @
                                   [\<lparr>url = js ''/preview'', http_method = js ''POST'',
                                     body = formData\<rparr>]\<rparr>)))))"

text \<open>The template literal of line 105.\<close>

definition data_uri :: "json \<Rightarrow> js_error + js_string" where
  "data_uri data =
     (case get_prop data (js ''preview_mime_type'') of
        Inl e \<Rightarrow> Inl e
      | Inr preview_mime_type \<Rightarrow>
          (case to_string_u preview_mime_type of
             Inl e \<Rightarrow> Inl e
           | Inr m \<Rightarrow>
               (case get_prop data (js ''preview_base64'') of
                  Inl e \<Rightarrow> Inl e
                | Inr preview_base64 \<Rightarrow>
                    (case to_string_u preview_base64 of
                       Inl e \<Rightarrow> Inl e
                     | Inr b \<Rightarrow> Inr (js ''data:'' @ m @ js '';base64,'' @ b)))))"

text \<open>
  Lines 105 to 109: the assignment to \<open>previewImage.src\<close>, then
  \<open>previewArea.style.display\<close>, then \<open>scrollIntoView\<close>. All that can be thrown here
  is a \<open>TypeError\<close>, whichever of the template and the \<open>null\<close> image fails first.
\<close>

definition show_preview :: "json \<Rightarrow> page \<Rightarrow> js_error option \<times> page" where
  "show_preview data p =
     (case data_uri data of
        Inl e \<Rightarrow> (Some e, p)
      | Inr uri \<Rightarrow>
          (case previewImage p of
             None \<Rightarrow> (Some TypeError, p)
           | Some img \<Rightarrow>
               (let p1 = p\<lparr>previewImage := Some (img\<lparr>src := uri\<rparr>)\<rparr>
                in case previewArea p1 of
                     None \<Rightarrow> (Some TypeError, p1)
                   | Some a \<Rightarrow>
                       (None, p1\<lparr>previewArea := Some (a\<lparr>display := js ''block''\<rparr>),
                                 scrolls := scrolls p1 @
                                   [\<lparr>behavior = js ''smooth'', block = js ''nearest''\<rparr>]\<rparr>))))"

text \<open>The callback of line 94, \<open>data => {...}\<close>.\<close>

definition preview_then :: "json \<Rightarrow> page \<Rightarrow> js_error option \<times> page" where
  "preview_then data p0 =
     (let p = p0\<lparr>previewBtn :=
                  map_option (\<lambda>b. b\<lparr>disabled := False, textContent := label_preview\<rparr>)
                    (previewBtn p0)\<rparr>
      in case get_prop data (js ''error'') of
           Inl e \<Rightarrow> (Some e, p)
         | Inr err \<Rightarrow>
             if truthy err then
               (case to_string_u err of
                  Inl e \<Rightarrow> (Some e, p)
                | Inr m \<Rightarrow> (None, p\<lparr>alerts := alerts p @ [m]\<rparr>))
             else
               (case get_prop data (js ''success'') of
                  Inl e \<Rightarrow> (Some e, p)
                | Inr success \<Rightarrow>
                    if \<not> truthy success then (None, p)
                    else
                      (case get_prop data (js ''preview_base64'') of
                         Inl e \<Rightarrow> (Some e, p)
                       | Inr preview_base64 \<Rightarrow>
                           if truthy preview_base64 then show_preview data p
                           else (None, p))))"

text \<open>The callback of line 112, \<open>error => {...}\<close>.\<close>

definition preview_catch :: "js_error \<Rightarrow> page \<Rightarrow> page" where
  "preview_catch error p =
     p\<lparr>previewBtn :=
         map_option (\<lambda>b. b\<lparr>disabled := False, textContent := label_preview\<rparr>) (previewBtn p),
       alerts := alerts p @ [msg_failed],
       console_errors := console_errors p @ [(js ''Error:'', error)]\<rparr>"

text \<open>
  How the request settles: \<open>fetch\<close> rejects, or \<open>response.json()\<close> rejects, or it
  resolves to a parsed body. The chain of lines 89 to 117 hands a rejection, and
  whatever the first callback throws, to the second.
\<close>

datatype outcome = FetchRejected js_error | JsonRejected js_error | JsonResolved json

definition preview_settle :: "outcome \<Rightarrow> page \<Rightarrow> page" where
  "preview_settle out p =
     (case out of
        FetchRejected e \<Rightarrow> preview_catch e p
      | JsonRejected e \<Rightarrow> preview_catch e p
      | JsonResolved data \<Rightarrow>
          (case preview_then data p of
             (None, p') \<Rightarrow> p'
           | (Some e, p') \<Rightarrow> preview_catch e p'))"



section \<open>Example inputs\<close>

text \<open>
  A PNG file and a GIF file on the clipboard, a plain-text item, and an item whose type
  string contains "image" but which is not a file, as \<open>setData\<close> with such a format
  produces: \<open>getAsFile()\<close> returns \<open>null\<close> for it.
\<close>

definition png_file :: js_file where
  "png_file = \<lparr>file_name = js ''image.png'', file_type = js ''image/png'',
                file_bytes = [0x89, 0x50, 0x4E, 0x47]\<rparr>"

definition gif_file :: js_file where
  "gif_file = \<lparr>file_name = js ''image.gif'', file_type = js ''image/gif'',
                file_bytes = [0x47, 0x49, 0x46]\<rparr>"

definition text_item :: item where
  "text_item = \<lparr>item_type = js ''text/plain'', getAsFile = None\<rparr>"

definition png_item :: item where
  "png_item = \<lparr>item_type = js ''image/png'', getAsFile = Some png_file\<rparr>"

definition gif_item :: item where
  "gif_item = \<lparr>item_type = js ''image/gif'', getAsFile = Some gif_file\<rparr>"

definition string_image_item :: item where
  "string_image_item = \<lparr>item_type = js ''image/x-note'', getAsFile = None\<rparr>"

text \<open>
  A page with every element the script looks up, no file chosen, the radio \<open>blue\<close>
  checked, both listeners registered, and a button labelled \<open>Preview\<close>.
\<close>

definition example_page :: page where
  "example_page =
     \<lparr>previewBtn = Some \<lparr>disabled = False, textContent = js ''Preview''\<rparr>,
      photoInput = Some \<lparr>files = Some []\<rparr>,
      previewArea = Some \<lparr>display = js ''none''\<rparr>,
      previewImage = Some \<lparr>src = []\<rparr>,
      bg_color_checked = Some (js ''blue''),
      banners = [], next_id = 0, timers = [], alerts = [], console_errors = [],
      requests = [], scrolls = [], paste_listener = True, click_listener = True\<rparr>"

text \<open>The same page with a PNG file chosen, and that page with no radio checked.\<close>

definition ready_page :: page where
  "ready_page = example_page\<lparr>photoInput := Some \<lparr>files = Some [png_file]\<rparr>\<rparr>"

definition unchecked_page :: page where
  "unchecked_page = ready_page\<lparr>bg_color_checked := None\<rparr>"

text \<open>Pages that lack one of the elements.\<close>

definition no_button_page :: page where
  "no_button_page = example_page\<lparr>previewBtn := None, click_listener := False\<rparr>"

definition no_input_page :: page where
  "no_input_page = example_page\<lparr>photoInput := None\<rparr>"

definition no_image_page :: page where
  "no_image_page = example_page\<lparr>previewImage := None\<rparr>"

definition no_area_page :: page where
  "no_area_page = example_page\<lparr>previewArea := None\<rparr>"

text \<open>Bodies of the \<open>/preview\<close> response.\<close>

definition success_response :: json where
  "success_response =
     JObject [(js ''success'', JBool True),
              (js ''preview_base64'', JString (js ''QQ=='')),
              (js ''preview_mime_type'', JString (js ''image/png''))]"

definition empty_base64_response :: json where
  "empty_base64_response =
     JObject [(js ''success'', JBool True),
              (js ''preview_base64'', JString []),
              (js ''preview_mime_type'', JString (js ''image/png''))]"

definition empty_error_response :: json where
  "empty_error_response =
     JObject [(js ''error'', JString []),
              (js ''success'', JBool True),
              (js ''preview_base64'', JString (js ''QQ=='')),
              (js ''preview_mime_type'', JString (js ''image/png''))]"

definition error_response :: json where
  "error_response =
     JObject [(js ''success'', JBool False), (js ''error'', JString (js ''no face found''))]"

definition bare_success_response :: json where
  "bare_success_response = JObject [(js ''success'', JBool True)]"

lemmas ex_defs = png_file_def gif_file_def text_item_def png_item_def gif_item_def
  string_image_item_def example_page_def js_def indexOf_def array_includes_def
  allowedTypes_def ready_page_def unchecked_page_def no_button_page_def no_input_page_def
  no_image_page_def no_area_page_def success_response_def empty_base64_response_def
  empty_error_response_def error_response_def bare_success_response_def

lemmas preview_defs = preview_settle_def preview_then_def preview_catch_def show_preview_def
  data_uri_def previewBtn_click_def Let_def

section \<open>Properties of the paste handler\<close>

text \<open>Items without "image" in their type string are passed over.\<close>

lemma paste_skip:
  "\<forall>it \<in> set skipped. indexOf (item_type it) (js ''image'') = - 1 \<Longrightarrow>
   paste_handler (skipped @ rest) p = paste_handler rest p"
  by (induction skipped) simp_all

text \<open>
  C8. A paste whose clipboard items have no "image" in their type string (an empty list
  among them) is a no-op of the handler, and so of the paste event: it completes
  normally, does not call \<open>preventDefault\<close>, and leaves the page, so the file input, the
  alerts and the banners, as it was.
\<close>

theorem paste_without_image_noop:
  assumes "\<forall>it \<in> set items. indexOf (item_type it) (js ''image'') = - 1"
  shows "paste_handler items p = (None, False, p) \<and> paste_event items p = (None, False, p)"
proof -
  have "paste_handler items p = (None, False, p)"
    using assms by (induction items) simp_all
  then show ?thesis
    by (simp add: paste_event_def)
qed

theorem paste_without_image_noop_witness:
  "indexOf (item_type text_item) (js ''image'') = - 1 \<and>
   paste_handler [text_item, text_item] example_page = (None, False, example_page) \<and>
   paste_event [text_item, text_item] example_page = (None, False, example_page) \<and>
   paste_event [] example_page = (None, False, example_page)"
proof -
  have t: "indexOf (item_type text_item) (js ''image'') = - 1"
    by (simp add: text_item_def indexOf_def js_def)
  then have h: "\<forall>it \<in> set [text_item, text_item]. indexOf (item_type it) (js ''image'') = - 1"
    by simp
  have e: "\<forall>it \<in> set ([] :: item list). indexOf (item_type it) (js ''image'') = - 1"
    by simp
  show ?thesis
    using t paste_without_image_noop [OF h, of example_page]
      paste_without_image_noop [OF e, of example_page]
    by simp
qed

lemma showPasteSuccess_input:
  "photoInput p = Some inp \<Longrightarrow>
   showPasteSuccess p =
     (None, p\<lparr>banners := drop 1 (banners p) @
                  [\<lparr>banner_id = next_id p,
                    className = js ''alert alert-info paste-success-alert mt-2'',
                    innerHTML = banner_html\<rparr>],
               next_id := Suc (next_id p),
               timers := timers p @ [\<lparr>delay = 3000, target = next_id p\<rparr>]\<rparr>)"
  by (cases "banners p") (simp_all add: showPasteSuccess_def Let_def)

lemma fire_timer_removes:
  "\<forall>x \<in> set (banners (fire_timer t q)). banner_id x \<noteq> target t"
  by (simp add: fire_timer_def timeout_callback_def)

text \<open>
  Banners do not stack: from at most one banner, every paste and every timer leaves at
  most one.
\<close>

lemma showPasteSuccess_one_banner:
  "length (banners p) \<le> 1 \<Longrightarrow> length (banners (snd (showPasteSuccess p))) \<le> 1"
  by (cases "banners p") (auto simp: showPasteSuccess_def Let_def split: option.splits)

lemma paste_handler_one_banner:
  "length (banners p) \<le> 1 \<Longrightarrow> length (banners (snd (snd (paste_handler items p)))) \<le> 1"
proof (induction items)
  case Nil
  then show ?case by simp
next
  case (Cons it items)
  then show ?case
    using showPasteSuccess_one_banner
    by (auto split: option.splits prod.splits simp: split_beta)
qed

lemma fire_timer_one_banner:
  "length (banners p) \<le> 1 \<Longrightarrow> length (banners (fire_timer t p)) \<le> 1"
  by (cases "banners p") (auto simp: fire_timer_def timeout_callback_def)

text \<open>
  C2. When the first clipboard item with "image" in its type string yields a file of
  type \<open>image/png\<close>, \<open>image/jpeg\<close> or \<open>image/jpg\<close>, and the page has the file input,
  the handler completes normally with the default action prevented: the file list of the
  input is the one-element list of that file, the first banner present (if any) is gone
  and the new banner is the last one (the only one, when at most one was there), and a
  timer of 3000 ms is pending whose firing, in whatever state \<open>q\<close>, removes that banner.
  Items after the first image are not looked at.
\<close>

theorem paste_first_image_accepted:
  assumes skipped: "\<forall>it \<in> set skipped. indexOf (item_type it) (js ''image'') = - 1"
    and image: "indexOf (item_type it) (js ''image'') \<noteq> - 1"
    and isfile: "getAsFile it = Some f"
    and ftype: "file_type f = js ''image/png'' \<or> file_type f = js ''image/jpeg'' \<or>
                file_type f = js ''image/jpg''"
    and input: "photoInput p = Some inp"
    and new: "new = \<lparr>banner_id = next_id p,
                      className = js ''alert alert-info paste-success-alert mt-2'',
                      innerHTML = banner_html\<rparr>"
    and t: "t = \<lparr>delay = 3000, target = next_id p\<rparr>"
  shows "paste_handler (skipped @ it # rest) p =
           (None, True,
            p\<lparr>photoInput := Some (inp\<lparr>files := Some [f]\<rparr>),
              banners := drop 1 (banners p) @ [new],
              next_id := Suc (next_id p),
              timers := timers p @ [t]\<rparr>) \<and>
         (length (banners p) \<le> 1 \<longrightarrow> drop 1 (banners p) @ [new] = [new]) \<and>
         new \<notin> set (banners (fire_timer t q))"
proof -
  have ok: "array_includes allowedTypes (file_type f)"
    using ftype by (auto simp: array_includes_def allowedTypes_def)
  let ?p1 = "p\<lparr>photoInput := Some (inp\<lparr>files := Some [f]\<rparr>)\<rparr>"
  have "paste_handler (skipped @ it # rest) p = paste_handler (it # rest) p"
    using skipped by (rule paste_skip)
  also have "\<dots> = (case showPasteSuccess ?p1 of (c, p') \<Rightarrow> (c, True, p'))"
    using image isfile ok input by simp
  also have "\<dots> = (None, True,
            p\<lparr>photoInput := Some (inp\<lparr>files := Some [f]\<rparr>),
              banners := drop 1 (banners p) @ [new],
              next_id := Suc (next_id p),
              timers := timers p @ [t]\<rparr>)"
    by (simp add: showPasteSuccess_input [of ?p1 "inp\<lparr>files := Some [f]\<rparr>"] new t)
  finally have run: "paste_handler (skipped @ it # rest) p =
           (None, True,
            p\<lparr>photoInput := Some (inp\<lparr>files := Some [f]\<rparr>),
              banners := drop 1 (banners p) @ [new],
              next_id := Suc (next_id p),
              timers := timers p @ [t]\<rparr>)" .
  have gone: "new \<notin> set (banners (fire_timer t q))"
    using fire_timer_removes [of t q] by (auto simp: new t)
  show ?thesis using run gone by simp
qed

theorem paste_first_image_accepted_witness:
  "indexOf (item_type text_item) (js ''image'') = - 1 \<and>
   indexOf (item_type png_item) (js ''image'') \<noteq> - 1 \<and>
   getAsFile png_item = Some png_file \<and>
   file_type png_file = js ''image/png'' \<and>
   photoInput example_page = Some \<lparr>files = Some []\<rparr> \<and>
   paste_handler [text_item, png_item, gif_item] example_page =
     (None, True,
      example_page
        \<lparr>photoInput := Some \<lparr>files = Some [png_file]\<rparr>,
         banners := [\<lparr>banner_id = 0,
                      className = js ''alert alert-info paste-success-alert mt-2'',
                      innerHTML = banner_html\<rparr>],
         next_id := 1,
         timers := [\<lparr>delay = 3000, target = 0\<rparr>]\<rparr>) \<and>
   \<lparr>banner_id = 0, className = js ''alert alert-info paste-success-alert mt-2'',
    innerHTML = banner_html\<rparr>
     \<notin> set (banners (fire_timer \<lparr>delay = 3000, target = 0\<rparr>
         (example_page
            \<lparr>photoInput := Some \<lparr>files = Some [png_file]\<rparr>,
             banners := [\<lparr>banner_id = 0,
                          className = js ''alert alert-info paste-success-alert mt-2'',
                          innerHTML = banner_html\<rparr>],
             next_id := 1,
             timers := [\<lparr>delay = 3000, target = 0\<rparr>]\<rparr>)))"
proof -
  have skipped: "\<forall>it \<in> set [text_item]. indexOf (item_type it) (js ''image'') = - 1"
    by (simp add: text_item_def indexOf_def js_def)
  have image: "indexOf (item_type png_item) (js ''image'') \<noteq> - 1"
    by (simp add: png_item_def indexOf_def js_def)
  have isfile: "getAsFile png_item = Some png_file"
    by (simp add: png_item_def)
  have ftype: "file_type png_file = js ''image/png'' \<or> file_type png_file = js ''image/jpeg'' \<or>
               file_type png_file = js ''image/jpg''"
    by (simp add: png_file_def)
  have input: "photoInput example_page = Some \<lparr>files = Some []\<rparr>"
    by (simp add: example_page_def)
  show ?thesis
    using skipped image isfile input
      paste_first_image_accepted [OF skipped image isfile ftype input refl refl,
        of "[gif_item]"
           "example_page
              \<lparr>photoInput := Some \<lparr>files = Some [png_file]\<rparr>,
               banners := [\<lparr>banner_id = 0,
                            className = js ''alert alert-info paste-success-alert mt-2'',
                            innerHTML = banner_html\<rparr>],
               next_id := 1,
               timers := [\<lparr>delay = 3000, target = 0\<rparr>]\<rparr>"]
    by (simp add: example_page_def png_file_def)
qed

text \<open>
  C2 as stated, for every paste that contains a PNG or JPEG item, fails when an image of
  another type comes first: the GIF is rejected and the PNG behind it is never reached,
  so the file input keeps its (empty) list and no banner is shown.
\<close>

theorem paste_later_png_counterexample:
  "png_item \<in> set [gif_item, png_item] \<and>
   file_type png_file = js ''image/png'' \<and>
   paste_handler [gif_item, png_item] example_page =
     (None, True, example_page\<lparr>alerts := [msg_unsupported]\<rparr>) \<and>
   photoInput (example_page\<lparr>alerts := [msg_unsupported]\<rparr>) = Some \<lparr>files = Some []\<rparr> \<and>
   banners (example_page\<lparr>alerts := [msg_unsupported]\<rparr>) = []"
  by (simp add: ex_defs)

text \<open>
  The path of lines 22 to 25 when a file is there: if the first clipboard item with
  "image" in its type string yields a file whose type is none of \<open>image/jpeg\<close>,
  \<open>image/jpg\<close>, \<open>image/png\<close>, the handler alerts with the fixed message and returns
  normally. The items before it are passed over without error, the default action is
  prevented, and nothing of the page but the alert log changes, so the file input is as
  before.
\<close>

theorem paste_unsupported_image_rejected:
  assumes skipped: "\<forall>it \<in> set skipped. indexOf (item_type it) (js ''image'') = - 1"
    and image: "indexOf (item_type it) (js ''image'') \<noteq> - 1"
    and isfile: "getAsFile it = Some f"
    and ftype: "file_type f \<noteq> js ''image/jpeg''" "file_type f \<noteq> js ''image/jpg''"
               "file_type f \<noteq> js ''image/png''"
  shows "paste_handler (skipped @ it # rest) p =
           (None, True, p\<lparr>alerts := alerts p @ [msg_unsupported]\<rparr>)"
proof -
  have bad: "\<not> array_includes allowedTypes (file_type f)"
    using ftype by (simp add: array_includes_def allowedTypes_def)
  have "paste_handler (skipped @ it # rest) p = paste_handler (it # rest) p"
    using skipped by (rule paste_skip)
  then show ?thesis
    using image isfile bad by simp
qed

theorem paste_unsupported_image_rejected_witness:
  "indexOf (item_type text_item) (js ''image'') = - 1 \<and>
   indexOf (item_type gif_item) (js ''image'') \<noteq> - 1 \<and>
   getAsFile gif_item = Some gif_file \<and>
   file_type gif_file = js ''image/gif'' \<and>
   paste_handler [text_item, gif_item, png_item] example_page =
     (None, True, example_page\<lparr>alerts := [msg_unsupported]\<rparr>)"
proof -
  have skipped: "\<forall>it \<in> set [text_item]. indexOf (item_type it) (js ''image'') = - 1"
    by (simp add: text_item_def indexOf_def js_def)
  have image: "indexOf (item_type gif_item) (js ''image'') \<noteq> - 1"
    by (simp add: gif_item_def indexOf_def js_def)
  have isfile: "getAsFile gif_item = Some gif_file"
    by (simp add: gif_item_def)
  have ftype: "file_type gif_file \<noteq> js ''image/jpeg''" "file_type gif_file \<noteq> js ''image/jpg''"
    "file_type gif_file \<noteq> js ''image/png''"
    by (simp_all add: gif_file_def js_def)
  show ?thesis
    using skipped image isfile
      paste_unsupported_image_rejected [OF skipped image isfile ftype,
        of "[png_item]" example_page]
    by (simp add: example_page_def gif_file_def)
qed

text \<open>
  C6. A paste whose first item with "image" in its type string has a type outside
  \<open>image/jpeg\<close>, \<open>image/jpg\<close>, \<open>image/png\<close> should be rejected by the alert of line
  23. The handler misses the item that is not a file: for the clipboard of a plain-text
  item followed by a string item of type \<open>image/x-note\<close>, the first item is passed
  over, \<open>preventDefault\<close> is called, \<open>getAsFile()\<close> returns \<open>null\<close>, and reading
  \<open>file.type\<close> at line 22 throws a \<open>TypeError\<close> that nothing catches. No alert is
  shown; the page, and so the file input, is unchanged.
\<close>

theorem paste_string_image_item_throws:
  "indexOf (item_type text_item) (js ''image'') = - 1 \<and>
   indexOf (item_type string_image_item) (js ''image'') \<noteq> - 1 \<and>
   \<not> array_includes allowedTypes (item_type string_image_item) \<and>
   paste_handler [text_item, string_image_item] example_page =
     (Some TypeError, True, example_page) \<and>
   alerts example_page = []"
  by (simp add: ex_defs)

section \<open>Properties of the preview handler\<close>

lemma get_prop_defined: "data \<noteq> JNull \<Longrightarrow> \<exists>v. get_prop data k = Inr v"
  by (cases data) simp_all

lemma preview_settle_success:
  assumes "get_prop data (js ''error'') = Inr err" "\<not> truthy err"
    and "get_prop data (js ''success'') = Inr s" "truthy s"
    and "get_prop data (js ''preview_base64'') = Inr (Some (JString b))" "b \<noteq> []"
    and "get_prop data (js ''preview_mime_type'') = Inr (Some (JString m))"
    and "previewBtn p = Some btn"
    and "previewImage p = Some img"
    and "previewArea p = Some a"
  shows "preview_settle (JsonResolved data) p =
           p\<lparr>previewBtn := Some (btn\<lparr>disabled := False, textContent := label_preview\<rparr>),
             previewImage := Some (img\<lparr>src := js ''data:'' @ m @ js '';base64,'' @ b\<rparr>),
             previewArea := Some (a\<lparr>display := js ''block''\<rparr>),
             scrolls := scrolls p @ [\<lparr>behavior = js ''smooth'', block = js ''nearest''\<rparr>]\<rparr>"
  using assms
  by (simp add: preview_settle_def preview_then_def show_preview_def data_uri_def Let_def)

lemma preview_settle_button:
  "previewBtn q = Some b \<Longrightarrow>
   previewBtn (preview_settle out q) = Some \<lparr>disabled = False, textContent = label_preview\<rparr>"
  by (cases out)
    (auto simp: preview_defs split: sum.splits option.splits prod.splits if_splits)

text \<open>
  C1. On a page with the button, the preview image and the preview container: when the
  parsed body has no truthy \<open>error\<close>, a truthy \<open>success\<close>, a non-empty string
  \<open>preview_base64\<close> and a string \<open>preview_mime_type\<close>, the handler sets the image's
  \<open>src\<close> to \<open>data:\<close> ++ preview_mime_type ++ \<open>;base64,\<close> ++ preview_base64, sets the
  container's display to \<open>block\<close> and scrolls it into view (and re-enables the button);
  nothing else changes. For the body
  \<open>{success:true, preview_base64:"QQ==", preview_mime_type:"image/png"}\<close> the \<open>src\<close>
  becomes exactly \<open>data:image/png;base64,QQ==\<close>.
\<close>

theorem preview_success_shown:
  assumes err: "get_prop data (js ''error'') = Inr err" "\<not> truthy err"
    and success: "get_prop data (js ''success'') = Inr s" "truthy s"
    and b64: "get_prop data (js ''preview_base64'') = Inr (Some (JString b))" "b \<noteq> []"
    and mime: "get_prop data (js ''preview_mime_type'') = Inr (Some (JString m))"
    and btn: "previewBtn p = Some btn"
    and img: "previewImage p = Some img"
    and area: "previewArea p = Some a"
  shows "preview_settle (JsonResolved data) p =
           p\<lparr>previewBtn := Some (btn\<lparr>disabled := False, textContent := label_preview\<rparr>),
             previewImage := Some (img\<lparr>src := js ''data:'' @ m @ js '';base64,'' @ b\<rparr>),
             previewArea := Some (a\<lparr>display := js ''block''\<rparr>),
             scrolls := scrolls p @ [\<lparr>behavior = js ''smooth'', block = js ''nearest''\<rparr>]\<rparr> \<and>
         preview_settle (JsonResolved success_response) p =
           p\<lparr>previewBtn := Some (btn\<lparr>disabled := False, textContent := label_preview\<rparr>),
             previewImage := Some (img\<lparr>src := js ''data:image/png;base64,QQ==''\<rparr>),
             previewArea := Some (a\<lparr>display := js ''block''\<rparr>),
             scrolls := scrolls p @ [\<lparr>behavior = js ''smooth'', block = js ''nearest''\<rparr>]\<rparr>"
proof -
  have general: "preview_settle (JsonResolved data) p =
           p\<lparr>previewBtn := Some (btn\<lparr>disabled := False, textContent := label_preview\<rparr>),
             previewImage := Some (img\<lparr>src := js ''data:'' @ m @ js '';base64,'' @ b\<rparr>),
             previewArea := Some (a\<lparr>display := js ''block''\<rparr>),
             scrolls := scrolls p @ [\<lparr>behavior = js ''smooth'', block = js ''nearest''\<rparr>]\<rparr>"
    using err success b64 mime btn img area by (rule preview_settle_success)
  have e: "get_prop success_response (js ''error'') = Inr None"
    and s: "get_prop success_response (js ''success'') = Inr (Some (JBool True))"
    and b: "get_prop success_response (js ''preview_base64'') = Inr (Some (JString (js ''QQ=='')))"
    and m: "get_prop success_response (js ''preview_mime_type'') =
              Inr (Some (JString (js ''image/png'')))"
    by (simp_all add: success_response_def js_def)
  have "preview_settle (JsonResolved success_response) p =
           p\<lparr>previewBtn := Some (btn\<lparr>disabled := False, textContent := label_preview\<rparr>),
             previewImage :=
               Some (img\<lparr>src := js ''data:'' @ js ''image/png'' @ js '';base64,'' @ js ''QQ==''\<rparr>),
             previewArea := Some (a\<lparr>display := js ''block''\<rparr>),
             scrolls := scrolls p @ [\<lparr>behavior = js ''smooth'', block = js ''nearest''\<rparr>]\<rparr>"
    using e _ s _ b _ m btn img area by (rule preview_settle_success) (simp_all add: js_def)
  moreover have "js ''data:'' @ js ''image/png'' @ js '';base64,'' @ js ''QQ=='' =
      js ''data:image/png;base64,QQ==''"
    by (simp add: js_def)
  ultimately show ?thesis
    using general by simp
qed

theorem preview_success_shown_witness:
  "get_prop success_response (js ''error'') = Inr None \<and>
   get_prop success_response (js ''success'') = Inr (Some (JBool True)) \<and>
   get_prop success_response (js ''preview_base64'') = Inr (Some (JString (js ''QQ==''))) \<and>
   get_prop success_response (js ''preview_mime_type'') = Inr (Some (JString (js ''image/png''))) \<and>
   preview_settle (JsonResolved success_response) example_page =
     example_page
       \<lparr>previewBtn := Some \<lparr>disabled = False, textContent = label_preview\<rparr>,
        previewImage := Some \<lparr>src = js ''data:image/png;base64,QQ==''\<rparr>,
        previewArea := Some \<lparr>display = js ''block''\<rparr>,
        scrolls := [\<lparr>behavior = js ''smooth'', block = js ''nearest''\<rparr>]\<rparr>"
proof -
  have e: "get_prop success_response (js ''error'') = Inr None"
    and s: "get_prop success_response (js ''success'') = Inr (Some (JBool True))"
    and b: "get_prop success_response (js ''preview_base64'') = Inr (Some (JString (js ''QQ=='')))"
    and m: "get_prop success_response (js ''preview_mime_type'') =
              Inr (Some (JString (js ''image/png'')))"
    by (simp_all add: success_response_def js_def)
  have f: "\<not> truthy None" and t: "truthy (Some (JBool True))" and n: "js ''QQ=='' \<noteq> []"
    by (simp_all add: js_def)
  have btn: "previewBtn example_page = Some \<lparr>disabled = False, textContent = js ''Preview''\<rparr>"
    and img: "previewImage example_page = Some \<lparr>src = []\<rparr>"
    and area: "previewArea example_page = Some \<lparr>display = js ''none''\<rparr>"
    by (simp_all add: example_page_def)
  show ?thesis
    using e s b m preview_success_shown [OF e f s t b n m btn img area]
    by (simp add: example_page_def js_def)
qed

text \<open>
  C1 as stated, for every body whose \<open>preview_base64\<close> is present, fails when that
  member is the empty string: it is falsy, so the image and the container stay as they
  were and nothing is scrolled.
\<close>

theorem preview_empty_base64_counterexample:
  "get_prop empty_base64_response (js ''error'') = Inr None \<and>
   get_prop empty_base64_response (js ''success'') = Inr (Some (JBool True)) \<and>
   get_prop empty_base64_response (js ''preview_base64'') = Inr (Some (JString [])) \<and>
   get_prop empty_base64_response (js ''preview_mime_type'') =
     Inr (Some (JString (js ''image/png''))) \<and>
   preview_settle (JsonResolved empty_base64_response) example_page =
     example_page\<lparr>previewBtn := Some \<lparr>disabled = False, textContent = label_preview\<rparr>\<rparr> \<and>
   previewImage (preview_settle (JsonResolved empty_base64_response) example_page) =
     Some \<lparr>src = []\<rparr> \<and>
   js ''data:'' @ js ''image/png'' @ js '';base64,'' @ [] \<noteq> [] \<and>
   previewArea (preview_settle (JsonResolved empty_base64_response) example_page) =
     Some \<lparr>display = js ''none''\<rparr> \<and>
   scrolls (preview_settle (JsonResolved empty_base64_response) example_page) = []"
  by (simp add: ex_defs preview_defs)

text \<open>
  C3. A click that issues a request leaves the button disabled with the busy label; when
  the request settles, by a parsed body, by a rejected \<open>fetch\<close> or by a rejected
  \<open>json()\<close>, the button is enabled again and its label is the fixed text of lines 96
  and 114. This holds from the state the click left and from any later state \<open>q\<close> that
  still has the button.
\<close>

theorem preview_settle_restores_button:
  assumes btn: "previewBtn p = Some btn"
    and click: "previewBtn_click p = (c, pending)"
    and issued: "requests pending \<noteq> requests p"
  shows "previewBtn pending = Some \<lparr>disabled = True, textContent = label_busy\<rparr> \<and>
         previewBtn (preview_settle out pending) =
           Some \<lparr>disabled = False, textContent = label_preview\<rparr> \<and>
         (\<forall>q b. previewBtn q = Some b \<longrightarrow>
            previewBtn (preview_settle out q) =
              Some \<lparr>disabled = False, textContent = label_preview\<rparr>)"
proof -
  have pend: "previewBtn pending = Some \<lparr>disabled = True, textContent = label_busy\<rparr>"
    using btn click issued
    by (auto simp: previewBtn_click_def Let_def split: option.splits list.splits)
  show ?thesis
    using pend preview_settle_button by blast
qed

theorem preview_settle_restores_button_witness:
  "previewBtn ready_page = Some \<lparr>disabled = False, textContent = js ''Preview''\<rparr> \<and>
   requests (snd (previewBtn_click ready_page)) \<noteq> requests ready_page \<and>
   previewBtn (snd (previewBtn_click ready_page)) =
     Some \<lparr>disabled = True, textContent = label_busy\<rparr> \<and>
   previewBtn (preview_settle (FetchRejected TypeError) (snd (previewBtn_click ready_page))) =
     Some \<lparr>disabled = False, textContent = label_preview\<rparr>"
proof -
  have btn: "previewBtn ready_page = Some \<lparr>disabled = False, textContent = js ''Preview''\<rparr>"
    by (simp add: ready_page_def example_page_def)
  have click: "previewBtn_click ready_page =
      (fst (previewBtn_click ready_page), snd (previewBtn_click ready_page))"
    by simp
  have issued: "requests (snd (previewBtn_click ready_page)) \<noteq> requests ready_page"
    by (simp add: ready_page_def example_page_def previewBtn_click_def Let_def)
  show ?thesis
    using btn issued
      preview_settle_restores_button [OF btn click issued, of "FetchRejected TypeError"]
    by simp
qed

text \<open>
  C3 as stated, with the label restored to the text the button had before the click,
  fails for a button labelled otherwise: the label after the request settles is the
  fixed text, not \<open>Preview\<close>.
\<close>

theorem preview_label_counterexample:
  "fst (previewBtn_click ready_page) = None \<and>
   requests (snd (previewBtn_click ready_page)) \<noteq> requests ready_page \<and>
   map_option textContent (previewBtn ready_page) = Some (js ''Preview'') \<and>
   map_option textContent
     (previewBtn (preview_settle (JsonResolved success_response)
        (snd (previewBtn_click ready_page)))) = Some label_preview \<and>
   label_preview \<noteq> js ''Preview''"
  by (simp add: ex_defs preview_defs label_preview_def)

text \<open>
  C4. When the parsed body has a truthy \<open>error\<close> whose conversion to a string gives
  \<open>msg\<close> (a non-empty string is its own conversion), the handler alerts with \<open>msg\<close>
  and, the button apart, changes nothing else: the image's \<open>src\<close>, the container's
  display and the scroll log are as before.
\<close>

theorem preview_error_alerted:
  assumes err: "get_prop data (js ''error'') = Inr err" "truthy err"
    and msg: "to_string_u err = Inr msg"
    and btn: "previewBtn p = Some btn"
  shows "preview_settle (JsonResolved data) p =
           p\<lparr>previewBtn := Some (btn\<lparr>disabled := False, textContent := label_preview\<rparr>),
             alerts := alerts p @ [msg]\<rparr>"
  using assms by (simp add: preview_settle_def preview_then_def Let_def)

theorem preview_error_alerted_witness:
  "get_prop error_response (js ''error'') = Inr (Some (JString (js ''no face found''))) \<and>
   truthy (Some (JString (js ''no face found''))) \<and>
   to_string_u (Some (JString (js ''no face found''))) = Inr (js ''no face found'') \<and>
   preview_settle (JsonResolved error_response) example_page =
     example_page\<lparr>previewBtn := Some \<lparr>disabled = False, textContent = label_preview\<rparr>,
                  alerts := [js ''no face found'']\<rparr>"
proof -
  have e: "get_prop error_response (js ''error'') = Inr (Some (JString (js ''no face found'')))"
    by (simp add: error_response_def js_def)
  have t: "truthy (Some (JString (js ''no face found'')))"
    by (simp add: js_def)
  have m: "to_string_u (Some (JString (js ''no face found''))) = Inr (js ''no face found'')"
    by simp
  have btn: "previewBtn example_page = Some \<lparr>disabled = False, textContent = js ''Preview''\<rparr>"
    by (simp add: example_page_def)
  show ?thesis
    using e t m preview_error_alerted [OF e t m btn]
    by (simp add: example_page_def)
qed

text \<open>
  C4 as stated, for every body that contains an \<open>error\<close> member, fails when the member
  is the empty string: nothing is alerted and the preview is shown.
\<close>

theorem preview_empty_error_counterexample:
  "get_prop empty_error_response (js ''error'') = Inr (Some (JString [])) \<and>
   alerts (preview_settle (JsonResolved empty_error_response) example_page) = [] \<and>
   previewImage (preview_settle (JsonResolved empty_error_response) example_page) =
     Some \<lparr>src = js ''data:image/png;base64,QQ==''\<rparr> \<and>
   previewImage example_page = Some \<lparr>src = []\<rparr> \<and>
   previewArea (preview_settle (JsonResolved empty_error_response) example_page) =
     Some \<lparr>display = js ''block''\<rparr> \<and>
   previewArea example_page = Some \<lparr>display = js ''none''\<rparr>"
  by (simp add: ex_defs preview_defs)

text \<open>
  C5. A click while the file input holds no file (its \<open>files\<close> absent, or of length
  zero) alerts with the message of line 75 and returns: the request log is as before, and
  so is everything else but the alert log.
\<close>

theorem preview_click_without_file:
  assumes input: "photoInput p = Some inp"
    and nofile: "files inp = None \<or> (\<exists>fs. files inp = Some fs \<and> length fs = 0)"
  shows "previewBtn_click p = (None, p\<lparr>alerts := alerts p @ [msg_no_file]\<rparr>) \<and>
         requests (snd (previewBtn_click p)) = requests p"
  using assms by (auto simp: previewBtn_click_def)

theorem preview_click_without_file_witness:
  "photoInput example_page = Some \<lparr>files = Some []\<rparr> \<and>
   length ([] :: js_file list) = 0 \<and>
   previewBtn_click example_page = (None, example_page\<lparr>alerts := [msg_no_file]\<rparr>) \<and>
   requests (snd (previewBtn_click example_page)) = []"
proof -
  have input: "photoInput example_page = Some \<lparr>files = Some []\<rparr>"
    by (simp add: example_page_def)
  have nofile: "files \<lparr>files = Some []\<rparr> = None \<or>
      (\<exists>fs. files \<lparr>files = Some []\<rparr> = Some fs \<and> length fs = 0)"
    by simp
  show ?thesis
    using input preview_click_without_file [OF input nofile]
    by (simp add: example_page_def)
qed

text \<open>
  C7. A click with a file present and no \<open>bg_color\<close> radio checked throws a
  \<open>TypeError\<close> at line 79, before the button is disabled and before any request: the
  page is exactly as before the click.
\<close>

theorem preview_click_without_bg_color:
  assumes input: "photoInput p = Some inp"
    and chosen: "files inp = Some (f # fs)"
    and noradio: "bg_color_checked p = None"
  shows "previewBtn_click p = (Some TypeError, p)"
  using assms by (simp add: previewBtn_click_def)

theorem preview_click_without_bg_color_witness:
  "photoInput unchecked_page = Some \<lparr>files = Some [png_file]\<rparr> \<and>
   bg_color_checked unchecked_page = None \<and>
   previewBtn_click unchecked_page = (Some TypeError, unchecked_page) \<and>
   previewBtn unchecked_page = Some \<lparr>disabled = False, textContent = js ''Preview''\<rparr> \<and>
   requests unchecked_page = []"
proof -
  have input: "photoInput unchecked_page = Some \<lparr>files = Some [png_file]\<rparr>"
    and noradio: "bg_color_checked unchecked_page = None"
    by (simp_all add: unchecked_page_def ready_page_def example_page_def)
  have chosen: "files \<lparr>files = Some [png_file]\<rparr> = Some (png_file # [])"
    by simp
  show ?thesis
    using input noradio preview_click_without_bg_color [OF input chosen noradio]
    by (simp add: unchecked_page_def ready_page_def example_page_def)
qed

text \<open>
  C9. When the parsed body is not \<open>null\<close> (so that its properties can be read), has no
  truthy \<open>error\<close> and not both a truthy \<open>success\<close> and a truthy \<open>preview_base64\<close>,
  the handler only restores the button: no alert, and the image, the container and all
  the rest of the page are unchanged.
\<close>

theorem preview_silent_response:
  assumes err: "get_prop data (js ''error'') = Inr err" "\<not> truthy err"
    and success: "get_prop data (js ''success'') = Inr s"
    and b64: "get_prop data (js ''preview_base64'') = Inr b"
    and neither: "\<not> (truthy s \<and> truthy b)"
    and btn: "previewBtn p = Some btn"
  shows "data \<noteq> JNull \<and>
         preview_settle (JsonResolved data) p =
           p\<lparr>previewBtn := Some (btn\<lparr>disabled := False, textContent := label_preview\<rparr>)\<rparr>"
  using assms by (auto simp: preview_settle_def preview_then_def Let_def)

theorem preview_silent_response_witness:
  "get_prop bare_success_response (js ''error'') = Inr None \<and>
   get_prop bare_success_response (js ''success'') = Inr (Some (JBool True)) \<and>
   get_prop bare_success_response (js ''preview_base64'') = Inr None \<and>
   preview_settle (JsonResolved bare_success_response) example_page =
     example_page\<lparr>previewBtn := Some \<lparr>disabled = False, textContent = label_preview\<rparr>\<rparr>"
proof -
  have e: "get_prop bare_success_response (js ''error'') = Inr None"
    and s: "get_prop bare_success_response (js ''success'') = Inr (Some (JBool True))"
    and b: "get_prop bare_success_response (js ''preview_base64'') = Inr None"
    by (simp_all add: bare_success_response_def js_def)
  have f: "\<not> truthy None" and n: "\<not> (truthy (Some (JBool True)) \<and> truthy None)"
    by simp_all
  have btn: "previewBtn example_page = Some \<lparr>disabled = False, textContent = js ''Preview''\<rparr>"
    by (simp add: example_page_def)
  show ?thesis
    using e s b preview_silent_response [OF e f s b n btn]
    by (simp add: example_page_def)
qed

text \<open>
  C9 as stated, for every parsed body, fails for the body \<open>null\<close>: it has no truthy
  \<open>error\<close>, but reading \<open>data.error\<close> throws, and the second callback alerts with the
  message of line 115 and writes to the console.
\<close>

theorem preview_null_body_counterexample:
  "get_prop JNull (js ''error'') = Inl TypeError \<and>
   preview_settle (JsonResolved JNull) example_page =
     example_page\<lparr>previewBtn := Some \<lparr>disabled = False, textContent = label_preview\<rparr>,
                  alerts := [msg_failed],
                  console_errors := [(js ''Error:'', TypeError)]\<rparr> \<and>
   alerts example_page = []"
  by (simp add: ex_defs preview_defs)



end
